theory Spec2Isabelle
  imports Main "HOL-Library.AList" "HOL-Library.Multiset"
begin

section \<open>Values, errors and collaborators\<close>

text \<open>
  The node handles plain JavaScript values: accounts, assets, events, bundles, requests and
  tokens are all object literals. They are modelled by one datatype of values. An object is
  an association list in insertion order; \<open>JUndefined\<close> is the value of a property that
  is not there. Numbers are the integral ones (access levels, timestamps, block numbers).
\<close>

datatype jsval =
    JUndefined
  | JNull
  | JBool bool
  | JNum int
  | JStr string
  | JArr "jsval list"
  | JObj "(string \<times> jsval) list"

text \<open>
  The error classes of \<^verbatim>\<open>errors/errors\<close> that the engine imports, the
  \<^verbatim>\<open>ValidationError\<close> of the validators, the plain \<^verbatim>\<open>Error\<close> thrown by
  \<^verbatim>\<open>createAdminAccount\<close>, the \<^verbatim>\<open>TypeError\<close> of a property read on
  \<^verbatim>\<open>null\<close> or \<^verbatim>\<open>undefined\<close>, and the failure of the ledger client.
  Only the kind of an error is kept, not its message.
\<close>

datatype error =
    ValidationError
  | PermissionError
  | NotFoundError
  | InvalidParametersError
  | PlainError
  | TypeError
  | Unavailable

text \<open>\<^verbatim>\<open>obj.key\<close> where the read cannot throw (a lookup along a path).\<close>

fun get_field :: "jsval \<Rightarrow> string \<Rightarrow> jsval" where
  "get_field (JObj kvs) k = (case map_of kvs k of None \<Rightarrow> JUndefined | Some v \<Rightarrow> v)"
| "get_field _ k = JUndefined"

fun get_path :: "jsval \<Rightarrow> string list \<Rightarrow> jsval" where
  "get_path v [] = v"
| "get_path v (k # ks) = get_path (get_field v k) ks"

text \<open>
  \<^verbatim>\<open>obj.key\<close> as JavaScript evaluates it: a \<^verbatim>\<open>TypeError\<close> on
  \<^verbatim>\<open>null\<close> and \<^verbatim>\<open>undefined\<close>, the property (or \<^verbatim>\<open>undefined\<close>)
  otherwise. None of the keys read by the engine is a built-in property of a string or an
  array.
\<close>

fun read_prop :: "jsval \<Rightarrow> string \<Rightarrow> error + jsval" where
  "read_prop JUndefined k = Inl TypeError"
| "read_prop JNull k = Inl TypeError"
| "read_prop v k = Inr (get_field v k)"

text \<open>The own keys of an object; a value that is not an object has none.\<close>

fun keys :: "jsval \<Rightarrow> string list" where
  "keys (JObj kvs) = map fst kvs"
| "keys _ = []"

text \<open>
  A copy of a value with one property set, as the \<^verbatim>\<open>put\<close> of the tests' fixtures
  does; an existing key keeps its place, a new key goes last.
\<close>

fun put_field :: "jsval \<Rightarrow> string \<Rightarrow> jsval \<Rightarrow> jsval" where
  "put_field (JObj kvs) k v = JObj (AList.update k v kvs)"
| "put_field _ k v = JObj [(k, v)]"

fun put_path :: "jsval \<Rightarrow> string list \<Rightarrow> jsval \<Rightarrow> jsval" where
  "put_path v [] x = x"
| "put_path v (k # ks) x = put_field v k (put_path (get_field v k) ks x)"

text \<open>
  The Identity Provider is an external collaborator (keccak hashing, elliptic-curve
  signatures); its functions are parameters. \<open>validateSignature\<close> is \<open>True\<close> when the
  JavaScript function returns and \<open>False\<close> when it throws.
\<close>

record identity_manager =
  calculateHash :: "jsval \<Rightarrow> jsval"
  checkHashMatches :: "jsval \<Rightarrow> jsval \<Rightarrow> bool"
  sign :: "jsval \<Rightarrow> jsval \<Rightarrow> jsval"
  validateSignature :: "jsval \<Rightarrow> jsval \<Rightarrow> jsval \<Rightarrow> bool"
  addressFromSecret :: "jsval \<Rightarrow> jsval"
  nodePrivateKey :: jsval

text \<open>
  The Entity Builder's validators and stamp functions are collaborators of the engine and
  of the bundle assembly, as the mocks of the tests show; they are parameters too. A
  validator is \<open>True\<close> when it returns and \<open>False\<close> when it throws its
  \<^verbatim>\<open>ValidationError\<close>.
\<close>

record entity_builder =
  validateAsset :: "jsval \<Rightarrow> bool"
  validateEvent :: "jsval \<Rightarrow> bool"
  setBundle :: "jsval \<Rightarrow> jsval \<Rightarrow> jsval"
  removeBundle :: "jsval \<Rightarrow> jsval"
  prepareEventForBundlePublication :: "jsval \<Rightarrow> jsval"

section \<open>Bundle assembly and validation\<close>

text \<open>
  Modelled from the spec: \<^verbatim>\<open>assembleBundle\<close> is missing from the sources (only its
  test is there). The nine steps of section 4.2: strip every asset and event of its bundle
  reference, stub every stripped event, collect both into \<open>entries\<close>, hash the entries,
  derive the creator's address, build and sign \<open>idData\<close>, build \<open>content\<close> and hash it.
  The timestamp is a number (the engine passes \<^verbatim>\<open>Date.now()\<close>).
\<close>

definition assembleBundle ::
  "identity_manager \<Rightarrow> entity_builder \<Rightarrow> jsval list \<Rightarrow> jsval list \<Rightarrow> int \<Rightarrow> jsval \<Rightarrow> jsval" where
  "assembleBundle im eb assets events timestamp creatorSecret =
     (let assetsStripped = map (removeBundle eb) assets;
          eventsStripped = map (removeBundle eb) events;
          eventsStubbed = map (prepareEventForBundlePublication eb) eventsStripped;
          entries = JArr (assetsStripped @ eventsStubbed);
          entriesHash = calculateHash im entries;
          createdBy = addressFromSecret im creatorSecret;
          idData = JObj [(''createdBy'', createdBy), (''timestamp'', JNum timestamp),
                         (''entriesHash'', entriesHash)];
          signature = sign im creatorSecret idData;
          content = JObj [(''idData'', idData), (''signature'', signature),
                          (''entries'', entries)];
          bundleId = calculateHash im content
      in JObj [(''bundleId'', bundleId), (''content'', content)])"

text \<open>
  Modelled from the spec: the fields a bundle must have (section 4.2), which are also the
  ones the bundle test removes one by one. \<^verbatim>\<open>validateBundle\<close> and its helpers are
  missing from the sources.
\<close>

definition requiredBundlePaths :: "string list list" where
  "requiredBundlePaths =
     [[''bundleId''],
      [''content''],
      [''content'', ''signature''],
      [''content'', ''idData''],
      [''content'', ''idData'', ''createdBy''],
      [''content'', ''idData'', ''timestamp''],
      [''content'', ''idData'', ''entriesHash''],
      [''content'', ''entries'']]"

text \<open>
  Modelled from the spec: a required field is absent when the lookup along its path finds
  nothing.
\<close>

definition pathsPresent :: "jsval \<Rightarrow> string list list \<Rightarrow> bool" where
  "pathsPresent v paths = list_all (\<lambda>p. get_path v p \<noteq> JUndefined) paths"

text \<open>
  Modelled from the spec: the keys of a validated level form a closed set; a key outside
  it is rejected.
\<close>

definition fieldsConstrainedToSet :: "jsval \<Rightarrow> string list \<Rightarrow> bool" where
  "fieldsConstrainedToSet v allowed = list_all (\<lambda>k. k \<in> set allowed) (keys v)"

text \<open>
  Modelled from the spec: \<^verbatim>\<open>validateBundle\<close> is missing from the sources (only its
  test is there). The closed field sets are those of the bundle of section 3:
  \<open>bundleId\<close>, \<open>content\<close> and the optional \<open>metadata\<close> at the top, \<open>idData\<close>,
  \<open>signature\<close> and \<open>entries\<close> in the content (\<open>entries\<close> is required, so it is a
  permitted field). The structural checks come before the hash and signature checks; every
  failure is a \<^verbatim>\<open>ValidationError\<close>.
\<close>

definition validateBundle :: "identity_manager \<Rightarrow> jsval \<Rightarrow> error + unit" where
  "validateBundle im bundle =
     (if \<not> pathsPresent bundle requiredBundlePaths then Inl ValidationError
      else if \<not> fieldsConstrainedToSet bundle [''bundleId'', ''content'', ''metadata'']
        then Inl ValidationError
      else if \<not> fieldsConstrainedToSet (get_field bundle ''content'')
                  [''idData'', ''signature'', ''entries'']
        then Inl ValidationError
      else if \<not> checkHashMatches im (get_field bundle ''bundleId'') (get_field bundle ''content'')
        then Inl ValidationError
      else if \<not> checkHashMatches im
                  (get_path bundle [''content'', ''idData'', ''entriesHash''])
                  (get_path bundle [''content'', ''entries''])
        then Inl ValidationError
      else if \<not> validateSignature im
                  (get_path bundle [''content'', ''idData'', ''createdBy''])
                  (get_path bundle [''content'', ''signature''])
                  (get_path bundle [''content'', ''idData''])
        then Inl ValidationError
      else Inr ())"

section \<open>Repositories\<close>

text \<open>
  Every call that writes to a repository or reaches the ledger is recorded, in the order
  in which the engine makes it, the way the tests' stubs record their calls.
\<close>

datatype call =
    StoreAccount jsval
  | UpdateAccount jsval jsval
  | StoreAsset jsval
  | StoreEvent jsval
  | BeginBundle jsval
  | StoreBundle jsval
  | EndBundle jsval jsval
  | UploadProof jsval
  | StoreBundleProofBlock jsval jsval

text \<open>The collections of the document store, and the record of the calls made so far.\<close>

record world =
  accountStore :: "jsval list"
  assetStore :: "jsval list"
  eventStore :: "jsval list"
  bundleStore :: "jsval list"
  journal :: "call list"

text \<open>
  Modelled from the spec: the Account Repository is missing from the sources; section 6
  gives its interface. \<^verbatim>\<open>count()\<close> is the number of stored accounts.
\<close>

definition count_accounts :: "world \<Rightarrow> int" where
  "count_accounts w = int (length (accountStore w))"

text \<open>
  Modelled from the spec: \<^verbatim>\<open>get(address)\<close> of the Account Repository, the account
  stored under the address or \<^verbatim>\<open>null\<close> (here \<open>None\<close>).
\<close>

definition get_account :: "world \<Rightarrow> jsval \<Rightarrow> jsval option" where
  "get_account w address = find (\<lambda>a. get_field a ''address'' = address) (accountStore w)"

text \<open>Modelled from the spec: \<^verbatim>\<open>store(account)\<close> of the Account Repository.\<close>

definition store_account :: "jsval \<Rightarrow> world \<Rightarrow> world" where
  "store_account account w =
     w\<lparr>accountStore := accountStore w @ [account],
       journal := journal w @ [StoreAccount account]\<rparr>"

text \<open>The own properties of an object, as \<^verbatim>\<open>{...obj}\<close> copies them.\<close>

fun spread :: "jsval \<Rightarrow> (string \<times> jsval) list" where
  "spread (JObj kvs) = kvs"
| "spread _ = []"

text \<open>
  Modelled from the spec: a partial update sets the fields of \<open>partial\<close> on a stored
  document and leaves the others.
\<close>

definition merge_fields :: "jsval \<Rightarrow> jsval \<Rightarrow> jsval" where
  "merge_fields doc partial = foldl (\<lambda>d (k, v). put_field d k v) doc (spread partial)"

text \<open>Modelled from the spec: an update changes the first document that matches.\<close>

fun update_first :: "(jsval \<Rightarrow> bool) \<Rightarrow> (jsval \<Rightarrow> jsval) \<Rightarrow> jsval list \<Rightarrow> jsval list" where
  "update_first P f [] = []"
| "update_first P f (d # ds) = (if P d then f d # ds else d # update_first P f ds)"

text \<open>
  Modelled from the spec: \<^verbatim>\<open>update(address, partial)\<close> of the Account Repository; it
  answers with the account as it is after the update.
\<close>

definition update_account :: "jsval \<Rightarrow> jsval \<Rightarrow> world \<Rightarrow> jsval \<times> world" where
  "update_account address partial w =
     (let w' = w\<lparr>accountStore :=
                   update_first (\<lambda>a. get_field a ''address'' = address)
                     (\<lambda>a. merge_fields a partial) (accountStore w),
                 journal := journal w @ [UpdateAccount address partial]\<rparr>
      in (case get_account w' address of None \<Rightarrow> JNull | Some a \<Rightarrow> a, w'))"

text \<open>
  Modelled from the spec: the Entity Repository is missing from the sources; section 6
  gives its interface. \<^verbatim>\<open>getAsset(id)\<close> is the stored asset with that id or
  \<^verbatim>\<open>null\<close> (here \<open>None\<close>).
\<close>

definition getAsset :: "world \<Rightarrow> jsval \<Rightarrow> jsval option" where
  "getAsset w assetId = find (\<lambda>a. get_field a ''assetId'' = assetId) (assetStore w)"

text \<open>Modelled from the spec: \<^verbatim>\<open>storeAsset\<close> of the Entity Repository.\<close>

definition storeAsset :: "jsval \<Rightarrow> world \<Rightarrow> world" where
  "storeAsset asset w =
     w\<lparr>assetStore := assetStore w @ [asset], journal := journal w @ [StoreAsset asset]\<rparr>"

text \<open>Modelled from the spec: \<^verbatim>\<open>storeEvent\<close> of the Entity Repository.\<close>

definition storeEvent :: "jsval \<Rightarrow> world \<Rightarrow> world" where
  "storeEvent event w =
     w\<lparr>eventStore := eventStore w @ [event], journal := journal w @ [StoreEvent event]\<rparr>"

text \<open>
  Modelled from the spec: the bundle reference of an entry, the \<open>bundleId\<close> link in its
  metadata.
\<close>

definition bundleRef :: "jsval \<Rightarrow> jsval" where
  "bundleRef entry = get_path entry [''metadata'', ''bundleId'']"

text \<open>
  Modelled from the spec: the stamp of a claim; an entry whose bundle reference is \<open>old\<close>
  gets the reference \<open>new\<close>.
\<close>

definition stamp :: "jsval \<Rightarrow> jsval \<Rightarrow> jsval \<Rightarrow> jsval" where
  "stamp old new entry =
     (if bundleRef entry = old then put_path entry [''metadata'', ''bundleId''] new else entry)"

text \<open>
  Modelled from the spec: \<^verbatim>\<open>beginBundle(stubId)\<close> claims every asset and event whose
  bundle reference is unset (\<^verbatim>\<open>null\<close>) by stamping it with the stub id, and returns
  the entries that carry that stamp.
\<close>

definition beginBundle :: "jsval \<Rightarrow> world \<Rightarrow> (jsval list \<times> jsval list) \<times> world" where
  "beginBundle bundleStubId w =
     (let w' = w\<lparr>assetStore := map (stamp JNull bundleStubId) (assetStore w),
                 eventStore := map (stamp JNull bundleStubId) (eventStore w),
                 journal := journal w @ [BeginBundle bundleStubId]\<rparr>
      in ((filter (\<lambda>e. bundleRef e = bundleStubId) (assetStore w'),
           filter (\<lambda>e. bundleRef e = bundleStubId) (eventStore w')), w'))"

text \<open>Modelled from the spec: \<^verbatim>\<open>storeBundle\<close> of the Entity Repository.\<close>

definition storeBundle :: "jsval \<Rightarrow> world \<Rightarrow> world" where
  "storeBundle bundle w =
     w\<lparr>bundleStore := bundleStore w @ [bundle], journal := journal w @ [StoreBundle bundle]\<rparr>"

text \<open>
  Modelled from the spec: \<^verbatim>\<open>endBundle(stubId, bundleId)\<close> resolves the claim; the
  entries stamped with the stub id now refer to the bundle.
\<close>

definition endBundle :: "jsval \<Rightarrow> jsval \<Rightarrow> world \<Rightarrow> world" where
  "endBundle bundleStubId bundleId w =
     w\<lparr>assetStore := map (stamp bundleStubId bundleId) (assetStore w),
       eventStore := map (stamp bundleStubId bundleId) (eventStore w),
       journal := journal w @ [EndBundle bundleStubId bundleId]\<rparr>"

text \<open>
  Modelled from the spec: \<^verbatim>\<open>storeBundleProofBlock(bundleId, blockNumber)\<close> records
  the anchor block with the stored bundle, in its metadata.
\<close>

definition storeBundleProofBlock :: "jsval \<Rightarrow> jsval \<Rightarrow> world \<Rightarrow> world" where
  "storeBundleProofBlock bundleId blockNumber w =
     w\<lparr>bundleStore :=
         map (\<lambda>b. if get_field b ''bundleId'' = bundleId
                  then put_path b [''metadata'', ''proofBlock''] blockNumber else b)
           (bundleStore w),
       journal := journal w @ [StoreBundleProofBlock bundleId blockNumber]\<rparr>"

text \<open>
  The Proof Repository talks to the ledger: \<^verbatim>\<open>uploadProof(bundleId)\<close> is a parameter
  that answers with a receipt \<^verbatim>\<open>{blockNumber}\<close> or fails.
\<close>

record proof_repository =
  uploadProof :: "jsval \<Rightarrow> error + jsval"

section \<open>Account access definitions\<close>

text \<open>
  Modelled from the spec: \<^verbatim>\<open>AccountAccessDefinitions\<close> is missing from the sources
  (only its test is there). Section 4.3: \<^verbatim>\<open>hasPermission\<close> is a membership test
  against the account's permissions.
\<close>

definition hasPermission :: "jsval \<Rightarrow> jsval \<Rightarrow> bool" where
  "hasPermission account permissionName =
     (case get_field account ''permissions'' of
        JArr permissions \<Rightarrow> permissionName \<in> set permissions
      | _ \<Rightarrow> False)"

text \<open>
  Modelled from the spec: \<^verbatim>\<open>ensureHasPermission\<close> fetches the account by address and
  fails with \<^verbatim>\<open>PermissionError\<close> when there is none, or when it lacks the
  permission.
\<close>

definition ensureHasPermission :: "world \<Rightarrow> jsval \<Rightarrow> jsval \<Rightarrow> error + unit" where
  "ensureHasPermission w address permissionName =
     (case get_account w address of
        None \<Rightarrow> Inl PermissionError
      | Some account \<Rightarrow>
          if hasPermission account permissionName then Inr () else Inl PermissionError)"

text \<open>Modelled from the spec: no token is provided (\<^verbatim>\<open>null\<close> or \<^verbatim>\<open>undefined\<close>).\<close>

definition noToken :: "jsval \<Rightarrow> bool" where
  "noToken tokenData = (tokenData = JNull \<or> tokenData = JUndefined)"

text \<open>
  Modelled from the spec: \<^verbatim>\<open>getTokenCreatorAccessLevel\<close> is \<open>0\<close> without a token
  and without an account for the token's creator, and that account's access level
  otherwise.
\<close>

definition getTokenCreatorAccessLevel :: "world \<Rightarrow> jsval \<Rightarrow> jsval" where
  "getTokenCreatorAccessLevel w tokenData =
     (if noToken tokenData then JNum 0
      else case get_account w (get_field tokenData ''createdBy'') of
             None \<Rightarrow> JNum 0
           | Some creatorAccount \<Rightarrow> get_field creatorAccount ''accessLevel'')"

text \<open>
  Modelled from the spec: \<^verbatim>\<open>defaultAdminPermissions\<close>, the fixed list that the test
  of the access definitions expects.
\<close>

definition defaultAdminPermissions :: jsval where
  "defaultAdminPermissions =
     JArr [JStr ''change_account_permissions'', JStr ''register_account'', JStr ''create_entity'']"

text \<open>Modelled from the spec: a well-formed access level is a non-negative integer.\<close>

fun isNonNegativeInteger :: "jsval \<Rightarrow> bool" where
  "isNonNegativeInteger (JNum n) = (0 \<le> n)"
| "isNonNegativeInteger _ = False"

text \<open>Modelled from the spec: a permission is a string.\<close>

fun isString :: "jsval \<Rightarrow> bool" where
  "isString (JStr s) = True"
| "isString _ = False"

text \<open>Modelled from the spec: well-formed permissions are a sequence of strings.\<close>

fun isStringArray :: "jsval \<Rightarrow> bool" where
  "isStringArray (JArr xs) = list_all isString xs"
| "isStringArray _ = False"

text \<open>
  Modelled from the spec: \<^verbatim>\<open>validateAddAccountRequest\<close> passes when the request has
  exactly the fields \<open>address\<close>, \<open>permissions\<close> and \<open>accessLevel\<close>, the last one a
  non-negative integer.
\<close>

definition validateAddAccountRequest :: "jsval \<Rightarrow> bool" where
  "validateAddAccountRequest accountRequest =
     (pathsPresent accountRequest [[''address''], [''permissions''], [''accessLevel'']]
      \<and> fieldsConstrainedToSet accountRequest [''address'', ''permissions'', ''accessLevel'']
      \<and> isNonNegativeInteger (get_field accountRequest ''accessLevel''))"

text \<open>
  Modelled from the spec: \<^verbatim>\<open>validateModifyAccountRequest\<close> passes when the request
  has no field besides \<open>permissions\<close> and \<open>accessLevel\<close>, and those present are
  well-formed.
\<close>

definition validateModifyAccountRequest :: "jsval \<Rightarrow> bool" where
  "validateModifyAccountRequest accountRequest =
     (fieldsConstrainedToSet accountRequest [''permissions'', ''accessLevel'']
      \<and> (if get_field accountRequest ''permissions'' = JUndefined then True
         else isStringArray (get_field accountRequest ''permissions''))
      \<and> (if get_field accountRequest ''accessLevel'' = JUndefined then True
         else isNonNegativeInteger (get_field accountRequest ''accessLevel'')))"

section \<open>The Data Model Engine\<close>

text \<open>
  The methods of \<^verbatim>\<open>DataModelEngine\<close>, statement by statement. A method takes the
  state of the repositories and returns its result, an error for a \<^verbatim>\<open>throw\<close>,
  with the state it leaves. A property chain such as \<^verbatim>\<open>event.content.idData\<close> is
  read strictly.
\<close>

fun read_path :: "jsval \<Rightarrow> string list \<Rightarrow> error + jsval" where
  "read_path v [] = Inr v"
| "read_path v (k # ks) =
     (case read_prop v k of Inl e \<Rightarrow> Inl e | Inr x \<Rightarrow> read_path x ks)"

text \<open>
  \<^verbatim>\<open>createAdminAccount(account = this.identityManager.createKeyPair())\<close>: the key pair
  is an argument (the default is a fresh random pair). The method returns the account it
  was given and stores that account with the admin permissions.
\<close>

definition createAdminAccount :: "jsval \<Rightarrow> world \<Rightarrow> (error + jsval) \<times> world" where
  "createAdminAccount account w =
     (let accounts = count_accounts w in
      if accounts > 0 then (Inl PlainError, w)
      else
        let accountWithPermissions =
              JObj (AList.update ''permissions'' defaultAdminPermissions (spread account))
        in (Inr account, store_account accountWithPermissions w))"

definition addAccount :: "jsval \<Rightarrow> jsval \<Rightarrow> world \<Rightarrow> (error + jsval) \<times> world" where
  "addAccount accountRequest tokenData w =
     (case read_prop tokenData ''createdBy'' of
        Inl e \<Rightarrow> (Inl e, w)
      | Inr createdBy \<Rightarrow>
          (case ensureHasPermission w createdBy (JStr ''register_account'') of
             Inl e \<Rightarrow> (Inl e, w)
           | Inr _ \<Rightarrow>
               if \<not> validateAddAccountRequest accountRequest then (Inl ValidationError, w)
               else
                 let accountToStore =
                       JObj [(''address'', get_field accountRequest ''address''),
                             (''permissions'', get_field accountRequest ''permissions''),
                             (''registeredBy'', createdBy),
                             (''accessLevel'', get_field accountRequest ''accessLevel'')]
                 in (Inr accountToStore, store_account accountToStore w)))"

definition getAccount :: "jsval \<Rightarrow> jsval \<Rightarrow> world \<Rightarrow> error + jsval" where
  "getAccount address tokenData w =
     (case read_prop tokenData ''createdBy'' of
        Inl e \<Rightarrow> Inl e
      | Inr createdBy \<Rightarrow>
          (case get_account w createdBy of
             None \<Rightarrow> Inl PermissionError
           | Some sender \<Rightarrow>
               (case get_account w address of
                  None \<Rightarrow> Inl NotFoundError
                | Some result \<Rightarrow> Inr result)))"

definition modifyAccount ::
  "jsval \<Rightarrow> jsval \<Rightarrow> jsval \<Rightarrow> world \<Rightarrow> (error + jsval) \<times> world" where
  "modifyAccount accountToChange accountRequest tokenData w =
     (case read_prop tokenData ''createdBy'' of
        Inl e \<Rightarrow> (Inl e, w)
      | Inr createdBy \<Rightarrow>
          (case ensureHasPermission w createdBy (JStr ''register_account'') of
             Inl e \<Rightarrow> (Inl e, w)
           | Inr _ \<Rightarrow>
               if \<not> validateModifyAccountRequest accountRequest then (Inl ValidationError, w)
               else
                 (case getAccount accountToChange tokenData w of
                    Inl e \<Rightarrow> (Inl e, w)
                  | Inr _ \<Rightarrow>
                      (case update_account accountToChange accountRequest w of
                         (updated, w') \<Rightarrow> (Inr updated, w')))))"

definition createAsset :: "entity_builder \<Rightarrow> jsval \<Rightarrow> world \<Rightarrow> (error + jsval) \<times> world" where
  "createAsset eb asset w =
     (if \<not> validateAsset eb asset then (Inl ValidationError, w)
      else
        (case read_path asset [''content'', ''idData'', ''createdBy''] of
           Inl e \<Rightarrow> (Inl e, w)
         | Inr creatorAddress \<Rightarrow>
             (case ensureHasPermission w creatorAddress (JStr ''create_entity'') of
                Inl e \<Rightarrow> (Inl e, w)
              | Inr _ \<Rightarrow>
                  let augmentedAsset = setBundle eb asset JNull
                  in (Inr augmentedAsset, storeAsset augmentedAsset w))))"

definition createEvent :: "entity_builder \<Rightarrow> jsval \<Rightarrow> world \<Rightarrow> (error + jsval) \<times> world" where
  "createEvent eb event w =
     (if \<not> validateEvent eb event then (Inl ValidationError, w)
      else
        (case read_path event [''content'', ''idData'', ''createdBy''] of
           Inl e \<Rightarrow> (Inl e, w)
         | Inr creatorAddress \<Rightarrow>
             let assetId = get_path event [''content'', ''idData'', ''assetId''] in
             (case ensureHasPermission w creatorAddress (JStr ''create_entity'') of
                Inl e \<Rightarrow> (Inl e, w)
              | Inr _ \<Rightarrow>
                  if getAsset w assetId = None then (Inl InvalidParametersError, w)
                  else
                    let augmentedEvent = setBundle eb event JNull
                    in (Inr augmentedEvent, storeEvent augmentedEvent w))))"

text \<open>
  \<^verbatim>\<open>finaliseBundle\<close>: \<open>now\<close> is the value of \<^verbatim>\<open>Date.now()\<close>. The call to the
  ledger is recorded when it is made, whether it succeeds or not.
\<close>

definition finaliseBundle ::
  "identity_manager \<Rightarrow> entity_builder \<Rightarrow> proof_repository \<Rightarrow> int \<Rightarrow> jsval \<Rightarrow> world
     \<Rightarrow> (error + jsval) \<times> world" where
  "finaliseBundle im eb pr now bundleStubId w =
     (case beginBundle bundleStubId w of
        (notBundled, w1) \<Rightarrow>
          let nodeSecret = nodePrivateKey im;
              newBundle = assembleBundle im eb (fst notBundled) (snd notBundled) now nodeSecret;
              w2 = storeBundle newBundle w1;
              w3 = endBundle bundleStubId (get_field newBundle ''bundleId'') w2;
              w4 = w3\<lparr>journal := journal w3 @ [UploadProof (get_field newBundle ''bundleId'')]\<rparr>
          in (case uploadProof pr (get_field newBundle ''bundleId'') of
                Inl e \<Rightarrow> (Inl e, w4)
              | Inr receipt \<Rightarrow>
                  (case read_prop receipt ''blockNumber'' of
                     Inl e \<Rightarrow> (Inl e, w4)
                   | Inr blockNumber \<Rightarrow>
                       (Inr newBundle,
                        storeBundleProofBlock (get_field newBundle ''bundleId'') blockNumber w4))))"

section \<open>Test doubles\<close>

text \<open>
  The collaborators used to run the engine on concrete inputs. The identity manager is a
  symbolic one: a digest is the tagged value itself, a signature names its secret and
  payload, an address wraps its secret. The entity builder strips and stubs entries the way
  the mock of the bundle test does (\<^verbatim>\<open>put(entry, 'mock.bundleStripped', 1)\<close> and
  \<^verbatim>\<open>put(entry, 'mock.stub', 1)\<close>), accepts every entity and writes the bundle
  reference into the metadata. The ledger answers with block 7.
\<close>

definition symbolicIdentityManager :: identity_manager where
  "symbolicIdentityManager =
     \<lparr> calculateHash = (\<lambda>v. JArr [JStr ''hash'', v]),
       checkHashMatches = (\<lambda>d v. d = JArr [JStr ''hash'', v]),
       sign = (\<lambda>s p. JArr [JStr ''signed'', s, p]),
       validateSignature =
         (\<lambda>a sg p. a = JObj [(''secret'', get_field a ''secret'')]
                   \<and> sg = JArr [JStr ''signed'', get_field a ''secret'', p]),
       addressFromSecret = (\<lambda>s. JObj [(''secret'', s)]),
       nodePrivateKey = JStr ''nodeSecret'' \<rparr>"

definition mockEntityBuilder :: entity_builder where
  "mockEntityBuilder =
     \<lparr> validateAsset = (\<lambda>asset. True),
       validateEvent = (\<lambda>event. True),
       setBundle = (\<lambda>entry bundle. put_path entry [''metadata'', ''bundleId''] bundle),
       removeBundle = (\<lambda>entry. put_path entry [''mock'', ''bundleStripped''] (JNum 1)),
       prepareEventForBundlePublication = (\<lambda>entry. put_path entry [''mock'', ''stub''] (JNum 1)) \<rparr>"

definition mockProofRepository :: proof_repository where
  "mockProofRepository = \<lparr> uploadProof = (\<lambda>bundleId. Inr (JObj [(''blockNumber'', JNum 7)])) \<rparr>"


text \<open>
  An identity manager that keeps the contract of section 6 with a short digest: the digest
  of a value is the number of its members, \<^verbatim>\<open>checkHashMatches\<close> compares digests, a
  signature is made over the digest of the payload and is valid for the address of its
  secret only. Different values share a digest, as they must for any digest of fixed size.
\<close>

fun memberCount :: "jsval \<Rightarrow> jsval" where
  "memberCount (JArr xs) = JNum (int (length xs))"
| "memberCount (JObj kvs) = JNum (int (length kvs))"
| "memberCount _ = JNum 0"

definition weakIdentityManager :: identity_manager where
  "weakIdentityManager =
     \<lparr> calculateHash = memberCount,
       checkHashMatches = (\<lambda>d v. d = memberCount v),
       sign = (\<lambda>s p. JArr [JStr ''signed'', s, memberCount p]),
       validateSignature =
         (\<lambda>a sg p. a = JObj [(''secret'', get_field a ''secret'')]
                   \<and> sg = JArr [JStr ''signed'', get_field a ''secret'', memberCount p]),
       addressFromSecret = (\<lambda>s. JObj [(''secret'', s)]),
       nodePrivateKey = JStr ''nodeSecret'' \<rparr>"

definition emptyWorld :: world where
  "emptyWorld =
     \<lparr> accountStore = [], assetStore = [], eventStore = [], bundleStore = [], journal = [] \<rparr>"

text \<open>
  The data of the scenarios: the admin's key pair and token, a caller nobody registered, a
  registration request, assets and events the admin created, and the repositories after
  the genesis, after a registration, and with two assets and three events waiting for a
  bundle.
\<close>

definition adminAccount :: jsval where
  "adminAccount = JObj [(''address'', JStr ''0xADMIN''), (''secret'', JStr ''0xSECRET'')]"

definition adminToken :: jsval where
  "adminToken = JObj [(''createdBy'', JStr ''0xADMIN''), (''validUntil'', JNum 423543253453)]"

definition strangerToken :: jsval where
  "strangerToken = JObj [(''createdBy'', JStr ''0xNOBODY''), (''validUntil'', JNum 423543253453)]"

definition addAccountRequest :: jsval where
  "addAccountRequest =
     JObj [(''address'', JStr ''0xUSER''),
           (''permissions'', JArr [JStr ''permission1'', JStr ''permission2'']),
           (''accessLevel'', JNum 4)]"

definition exampleAsset :: "string \<Rightarrow> jsval" where
  "exampleAsset assetId =
     JObj [(''assetId'', JStr assetId),
           (''content'', JObj [(''idData'', JObj [(''createdBy'', JStr ''0xADMIN''),
                                                (''timestamp'', JNum 1)]),
                              (''signature'', JStr ''0xSIG'')])]"

definition exampleEvent :: "string \<Rightarrow> string \<Rightarrow> int \<Rightarrow> jsval" where
  "exampleEvent eventId assetId accessLevel =
     JObj [(''eventId'', JStr eventId),
           (''content'', JObj [(''idData'', JObj [(''createdBy'', JStr ''0xADMIN''),
                                                (''timestamp'', JNum 2),
                                                (''assetId'', JStr assetId),
                                                (''accessLevel'', JNum accessLevel)]),
                              (''signature'', JStr ''0xSIG'')])]"

definition genesisWorld :: world where
  "genesisWorld = snd (createAdminAccount adminAccount emptyWorld)"

definition registeredWorld :: world where
  "registeredWorld = snd (addAccount addAccountRequest adminToken genesisWorld)"

definition scenarioWorld :: world where
  "scenarioWorld =
     genesisWorld\<lparr>
       assetStore := [setBundle mockEntityBuilder (exampleAsset ''0xA1'') JNull,
                      setBundle mockEntityBuilder (exampleAsset ''0xA2'') JNull],
       eventStore := [setBundle mockEntityBuilder (exampleEvent ''0xE1'' ''0xA1'' 0) JNull,
                      setBundle mockEntityBuilder (exampleEvent ''0xE2'' ''0xA2'' 0) JNull,
                      setBundle mockEntityBuilder (exampleEvent ''0xE3'' ''0xA2'' 1) JNull]\<rparr>"

section \<open>Facts about values\<close>

lemma get_field_put_field_other: "k' \<noteq> k \<Longrightarrow> get_field (put_field b k v) k' = get_field b k'"
  by (cases b) (simp_all add: update_conv')

lemma get_field_put_field_same: "get_field (put_field b k v) k = v"
  by (cases b) (simp_all add: update_conv')

lemma keys_put_field: "set (keys (put_field b k v)) = insert k (set (keys b))"
  by (cases b) (simp_all add: dom_update)


section \<open>The bundle protocol\<close>

lemma validateBundle_iff:
  "validateBundle im bundle = Inr () \<longleftrightarrow>
     (get_field bundle ''bundleId'' \<noteq> JUndefined
      \<and> get_field bundle ''content'' \<noteq> JUndefined
      \<and> get_path bundle [''content'', ''signature''] \<noteq> JUndefined
      \<and> get_path bundle [''content'', ''idData'', ''createdBy''] \<noteq> JUndefined
      \<and> get_path bundle [''content'', ''idData'', ''timestamp''] \<noteq> JUndefined
      \<and> get_path bundle [''content'', ''idData'', ''entriesHash''] \<noteq> JUndefined
      \<and> get_path bundle [''content'', ''entries''] \<noteq> JUndefined
      \<and> set (keys bundle) \<subseteq> {''bundleId'', ''content'', ''metadata''}
      \<and> set (keys (get_field bundle ''content'')) \<subseteq> {''idData'', ''signature'', ''entries''}
      \<and> checkHashMatches im (get_field bundle ''bundleId'') (get_field bundle ''content'')
      \<and> checkHashMatches im (get_path bundle [''content'', ''idData'', ''entriesHash''])
            (get_path bundle [''content'', ''entries''])
      \<and> validateSignature im (get_path bundle [''content'', ''idData'', ''createdBy''])
            (get_path bundle [''content'', ''signature''])
            (get_path bundle [''content'', ''idData'']))"
  unfolding validateBundle_def pathsPresent_def fieldsConstrainedToSet_def requiredBundlePaths_def
  by (auto simp: list_all_iff)

lemma validateBundle_error: "validateBundle im bundle = Inl e \<Longrightarrow> e = ValidationError"
  unfolding validateBundle_def by (simp split: if_splits)


text \<open>
  C1. For all assets, events, timestamp and creator secret, \<open>assembleBundle\<close> returns
  \<open>{bundleId, content}\<close>, where the entries of the content are the stripped assets together
  with the publication stubs of the stripped events (as many entries as there are assets and
  events), \<open>idData\<close> holds the address of the secret, the timestamp and the hash of the
  entries, the signature is the secret's signature of \<open>idData\<close>, and \<open>bundleId\<close> is the
  hash of the content.
\<close>

theorem assembleBundle_shape:
  "\<exists>entries idData content.
     assembleBundle im eb assets events timestamp creatorSecret =
       JObj [(''bundleId'', calculateHash im content), (''content'', content)]
     \<and> content = JObj [(''idData'', idData), (''signature'', sign im creatorSecret idData),
                       (''entries'', JArr entries)]
     \<and> idData = JObj [(''createdBy'', addressFromSecret im creatorSecret),
                      (''timestamp'', JNum timestamp),
                      (''entriesHash'', calculateHash im (JArr entries))]
     \<and> mset entries =
         mset (map (removeBundle eb) assets)
         + mset (map (\<lambda>e. prepareEventForBundlePublication eb (removeBundle eb e)) events)
     \<and> length entries = length assets + length events"
  by (simp add: assembleBundle_def Let_def comp_def)

theorem assembleBundle_shape_witness:
  "\<exists>entries idData content.
     assembleBundle symbolicIdentityManager mockEntityBuilder
        [JObj [(''assetId'', JStr ''0xA1'')], JObj [(''assetId'', JStr ''0xA2'')]]
        [JObj [(''eventId'', JStr ''0xE1'')], JObj [(''eventId'', JStr ''0xE2'')],
         JObj [(''eventId'', JStr ''0xE3'')]] 1540000000 (JStr ''inSecret'') =
       JObj [(''bundleId'', calculateHash symbolicIdentityManager content), (''content'', content)]
     \<and> content = JObj [(''idData'', idData),
                       (''signature'', sign symbolicIdentityManager (JStr ''inSecret'') idData),
                       (''entries'', JArr entries)]
     \<and> length entries = 5"
  using assembleBundle_shape [of symbolicIdentityManager mockEntityBuilder
        "[JObj [(''assetId'', JStr ''0xA1'')], JObj [(''assetId'', JStr ''0xA2'')]]"
        "[JObj [(''eventId'', JStr ''0xE1'')], JObj [(''eventId'', JStr ''0xE2'')],
         JObj [(''eventId'', JStr ''0xE3'')]]" 1540000000 "JStr ''inSecret''"]
  by auto

text \<open>
  C2. \<open>validateBundle\<close> passes exactly when \<open>bundleId\<close>, \<open>content\<close>, the signature,
  the three fields of \<open>idData\<close> and the entries are present, the content has no field
  outside \<open>idData\<close>, \<open>signature\<close>, \<open>entries\<close>, the top level has no field outside
  \<open>bundleId\<close>, \<open>content\<close>, \<open>metadata\<close>, \<open>bundleId\<close> matches the hash of the
  content, \<open>entriesHash\<close> matches the hash of the entries and the signature of \<open>idData\<close>
  is valid for \<open>createdBy\<close>; otherwise it fails with \<^verbatim>\<open>ValidationError\<close>. A
  \<open>metadata\<close> field, whatever its value, does not change the outcome.
\<close>

theorem validateBundle_spec:
  "validateBundle im bundle =
     (if get_path bundle [''bundleId''] \<noteq> JUndefined
         \<and> get_path bundle [''content''] \<noteq> JUndefined
         \<and> get_path bundle [''content'', ''signature''] \<noteq> JUndefined
         \<and> get_path bundle [''content'', ''idData'', ''createdBy''] \<noteq> JUndefined
         \<and> get_path bundle [''content'', ''idData'', ''timestamp''] \<noteq> JUndefined
         \<and> get_path bundle [''content'', ''idData'', ''entriesHash''] \<noteq> JUndefined
         \<and> get_path bundle [''content'', ''entries''] \<noteq> JUndefined
         \<and> set (keys (get_path bundle [''content''])) \<subseteq> {''idData'', ''signature'', ''entries''}
         \<and> set (keys bundle) \<subseteq> {''bundleId'', ''content'', ''metadata''}
         \<and> checkHashMatches im (get_path bundle [''bundleId'']) (get_path bundle [''content''])
         \<and> checkHashMatches im (get_path bundle [''content'', ''idData'', ''entriesHash''])
               (get_path bundle [''content'', ''entries''])
         \<and> validateSignature im (get_path bundle [''content'', ''idData'', ''createdBy''])
               (get_path bundle [''content'', ''signature''])
               (get_path bundle [''content'', ''idData''])
      then Inr () else Inl ValidationError)
   \<and> validateBundle im (put_field bundle ''metadata'' m) = validateBundle im bundle"
proof
  show "validateBundle im bundle = (if get_path bundle [''bundleId''] \<noteq> JUndefined
         \<and> get_path bundle [''content''] \<noteq> JUndefined
         \<and> get_path bundle [''content'', ''signature''] \<noteq> JUndefined
         \<and> get_path bundle [''content'', ''idData'', ''createdBy''] \<noteq> JUndefined
         \<and> get_path bundle [''content'', ''idData'', ''timestamp''] \<noteq> JUndefined
         \<and> get_path bundle [''content'', ''idData'', ''entriesHash''] \<noteq> JUndefined
         \<and> get_path bundle [''content'', ''entries''] \<noteq> JUndefined
         \<and> set (keys (get_path bundle [''content''])) \<subseteq> {''idData'', ''signature'', ''entries''}
         \<and> set (keys bundle) \<subseteq> {''bundleId'', ''content'', ''metadata''}
         \<and> checkHashMatches im (get_path bundle [''bundleId'']) (get_path bundle [''content''])
         \<and> checkHashMatches im (get_path bundle [''content'', ''idData'', ''entriesHash''])
               (get_path bundle [''content'', ''entries''])
         \<and> validateSignature im (get_path bundle [''content'', ''idData'', ''createdBy''])
               (get_path bundle [''content'', ''signature''])
               (get_path bundle [''content'', ''idData''])
      then Inr () else Inl ValidationError)"
    (is "_ = (if ?C then _ else _)")
  proof (cases ?C)
    case True
    then have "validateBundle im bundle = Inr ()"
      by (simp add: validateBundle_iff)
    with True show ?thesis by simp
  next
    case False
    then have ne: "validateBundle im bundle \<noteq> Inr ()"
      by (simp add: validateBundle_iff)
    then obtain e where e: "validateBundle im bundle = Inl e"
      by (cases "validateBundle im bundle") auto
    then have "e = ValidationError" by (rule validateBundle_error)
    with e False show ?thesis by simp
  qed
next
  have "validateBundle im (put_field bundle ''metadata'' m) = Inr ()
          \<longleftrightarrow> validateBundle im bundle = Inr ()"
    by (simp add: validateBundle_iff get_field_put_field_other keys_put_field)
  then show "validateBundle im (put_field bundle ''metadata'' m) = validateBundle im bundle"
    by (cases "validateBundle im (put_field bundle ''metadata'' m)";
        cases "validateBundle im bundle") (auto dest: validateBundle_error)
qed

theorem validateBundle_spec_witness:
  "validateBundle symbolicIdentityManager
     (put_field (assembleBundle symbolicIdentityManager mockEntityBuilder
        [exampleAsset ''0xA1''] [exampleEvent ''0xE1'' ''0xA1'' 0] 1540000000 (JStr ''inSecret''))
        ''metadata'' (JStr ''abc'')) = Inr ()
   \<and> validateBundle symbolicIdentityManager
     (put_field (assembleBundle symbolicIdentityManager mockEntityBuilder
        [exampleAsset ''0xA1''] [exampleEvent ''0xE1'' ''0xA1'' 0] 1540000000 (JStr ''inSecret''))
        ''extraField'' (JStr ''abc'')) = Inl ValidationError"
proof -
  let ?b = "assembleBundle symbolicIdentityManager mockEntityBuilder
        [exampleAsset ''0xA1''] [exampleEvent ''0xE1'' ''0xA1'' 0] 1540000000 (JStr ''inSecret'')"
  have "validateBundle symbolicIdentityManager ?b = Inr ()"
    using validateBundle_spec [of symbolicIdentityManager ?b]
    by (simp add: assembleBundle_def Let_def symbolicIdentityManager_def)
  moreover have "validateBundle symbolicIdentityManager (put_field ?b ''metadata'' (JStr ''abc''))
      = validateBundle symbolicIdentityManager ?b"
    using validateBundle_spec [of symbolicIdentityManager ?b "JStr ''abc''"] by (rule conjunct2)
  moreover have "validateBundle symbolicIdentityManager (put_field ?b ''extraField'' (JStr ''abc''))
      = Inl ValidationError"
    using validateBundle_spec [of symbolicIdentityManager "put_field ?b ''extraField'' (JStr ''abc'')"]
    by (simp add: assembleBundle_def Let_def)
  ultimately show ?thesis by simp
qed



lemma memberCount_defined: "memberCount v \<noteq> JUndefined"
  by (cases v) simp_all

lemma weakIdentityManager_contract:
  "(\<forall>d v. checkHashMatches weakIdentityManager d v \<longleftrightarrow> d = calculateHash weakIdentityManager v)
   \<and> (\<forall>s p. validateSignature weakIdentityManager (addressFromSecret weakIdentityManager s)
              (sign weakIdentityManager s p) p)
   \<and> (\<forall>v. calculateHash weakIdentityManager v \<noteq> JUndefined)
   \<and> (\<forall>s p. sign weakIdentityManager s p \<noteq> JUndefined)
   \<and> (\<forall>s. addressFromSecret weakIdentityManager s \<noteq> JUndefined)"
  by (simp add: weakIdentityManager_def memberCount_defined)


section \<open>Account access\<close>

lemma genesisWorld_simp:
  "genesisWorld =
     \<lparr> accountStore = [JObj [(''address'', JStr ''0xADMIN''), (''secret'', JStr ''0xSECRET''),
                             (''permissions'', defaultAdminPermissions)]],
       assetStore = [], eventStore = [], bundleStore = [],
       journal = [StoreAccount (JObj [(''address'', JStr ''0xADMIN''), (''secret'', JStr ''0xSECRET''),
                             (''permissions'', defaultAdminPermissions)])] \<rparr>"
  by (simp add: genesisWorld_def createAdminAccount_def count_accounts_def emptyWorld_def
      adminAccount_def store_account_def Let_def)

lemma registeredWorld_simp:
  "registeredWorld =
     genesisWorld\<lparr>
       accountStore := accountStore genesisWorld @
         [JObj [(''address'', JStr ''0xUSER''),
                (''permissions'', JArr [JStr ''permission1'', JStr ''permission2'']),
                (''registeredBy'', JStr ''0xADMIN''), (''accessLevel'', JNum 4)]],
       journal := journal genesisWorld @
         [StoreAccount (JObj [(''address'', JStr ''0xUSER''),
                (''permissions'', JArr [JStr ''permission1'', JStr ''permission2'']),
                (''registeredBy'', JStr ''0xADMIN''), (''accessLevel'', JNum 4)])]\<rparr>"
  by (simp add: registeredWorld_def addAccount_def adminToken_def genesisWorld_simp
      ensureHasPermission_def get_account_def hasPermission_def defaultAdminPermissions_def
      validateAddAccountRequest_def pathsPresent_def fieldsConstrainedToSet_def
      addAccountRequest_def store_account_def Let_def)

text \<open>
  C6. \<open>getTokenCreatorAccessLevel\<close> is \<open>0\<close> when the token is \<^verbatim>\<open>null\<close> or
  \<^verbatim>\<open>undefined\<close>, and \<open>0\<close> when no account is registered for the token's creator;
  otherwise it is exactly the access level stored with that account.
\<close>

theorem getTokenCreatorAccessLevel_spec:
  "getTokenCreatorAccessLevel w JNull = JNum 0
   \<and> getTokenCreatorAccessLevel w JUndefined = JNum 0
   \<and> (\<not> noToken tokenData \<and> get_account w (get_field tokenData ''createdBy'') = None
        \<longrightarrow> getTokenCreatorAccessLevel w tokenData = JNum 0)
   \<and> (\<forall>account. \<not> noToken tokenData
          \<and> get_account w (get_field tokenData ''createdBy'') = Some account
        \<longrightarrow> getTokenCreatorAccessLevel w tokenData = get_field account ''accessLevel'')"
  by (simp add: getTokenCreatorAccessLevel_def noToken_def)

theorem getTokenCreatorAccessLevel_spec_witness:
  "getTokenCreatorAccessLevel registeredWorld JNull = JNum 0
   \<and> getTokenCreatorAccessLevel registeredWorld strangerToken = JNum 0
   \<and> getTokenCreatorAccessLevel registeredWorld (JObj [(''createdBy'', JStr ''0xUSER'')]) = JNum 4"
  using getTokenCreatorAccessLevel_spec [of registeredWorld strangerToken]
    getTokenCreatorAccessLevel_spec [of registeredWorld "JObj [(''createdBy'', JStr ''0xUSER'')]"]
  by (simp add: noToken_def strangerToken_def get_account_def registeredWorld_simp
      genesisWorld_simp)

text \<open>
  C7. \<open>ensureHasPermission\<close> fails with \<^verbatim>\<open>PermissionError\<close> when there is no
  account at the address and when the account is there but its permissions do not contain the
  one asked for; it succeeds exactly when the account exists and holds the permission. Both
  failures are the same error, so its kind does not tell the caller which one happened.
\<close>

theorem ensureHasPermission_spec:
  "(get_account w address = None
      \<longrightarrow> ensureHasPermission w address permissionName = Inl PermissionError)
   \<and> (\<forall>account. get_account w address = Some account \<and> \<not> hasPermission account permissionName
      \<longrightarrow> ensureHasPermission w address permissionName = Inl PermissionError)
   \<and> (ensureHasPermission w address permissionName = Inr ()
      \<longleftrightarrow> (\<exists>account. get_account w address = Some account \<and> hasPermission account permissionName))
   \<and> (ensureHasPermission w address permissionName \<noteq> Inr ()
      \<longrightarrow> ensureHasPermission w address permissionName = Inl PermissionError)
   \<and> (\<forall>account permissions. get_field account ''permissions'' = JArr permissions
      \<longrightarrow> hasPermission account permissionName = (permissionName \<in> set permissions))"
  by (auto simp: ensureHasPermission_def hasPermission_def split: option.splits)

theorem ensureHasPermission_spec_witness:
  "ensureHasPermission genesisWorld (JStr ''0xADMIN'') (JStr ''create_entity'') = Inr ()
   \<and> ensureHasPermission genesisWorld (JStr ''0xADMIN'') (JStr ''topsecret'') = Inl PermissionError
   \<and> ensureHasPermission genesisWorld (JStr ''0xNOBODY'') (JStr ''create_entity'')
       = Inl PermissionError"
proof -
  let ?admin = "JObj [(''address'', JStr ''0xADMIN''), (''secret'', JStr ''0xSECRET''),
                      (''permissions'', defaultAdminPermissions)]"
  have admin: "get_account genesisWorld (JStr ''0xADMIN'') = Some ?admin"
    by (simp add: get_account_def genesisWorld_simp)
  have nobody: "get_account genesisWorld (JStr ''0xNOBODY'') = None"
    by (simp add: get_account_def genesisWorld_simp)
  have yes: "hasPermission ?admin (JStr ''create_entity'')"
    by (simp add: hasPermission_def defaultAdminPermissions_def)
  have no: "\<not> hasPermission ?admin (JStr ''topsecret'')"
    by (simp add: hasPermission_def defaultAdminPermissions_def)
  have "ensureHasPermission genesisWorld (JStr ''0xADMIN'') (JStr ''create_entity'') = Inr ()"
    using ensureHasPermission_spec [of genesisWorld "JStr ''0xADMIN''" "JStr ''create_entity''"]
      admin yes by blast
  moreover
  have "ensureHasPermission genesisWorld (JStr ''0xADMIN'') (JStr ''topsecret'') = Inl PermissionError"
    using ensureHasPermission_spec [of genesisWorld "JStr ''0xADMIN''" "JStr ''topsecret''"]
      admin no by blast
  moreover
  have "ensureHasPermission genesisWorld (JStr ''0xNOBODY'') (JStr ''create_entity'')
       = Inl PermissionError"
    using ensureHasPermission_spec [of genesisWorld "JStr ''0xNOBODY''" "JStr ''create_entity''"]
      nobody by blast
  ultimately show ?thesis by blast
qed

section \<open>Account lifecycle\<close>

text \<open>
  C4. \<open>createAdminAccount\<close> succeeds if and only if the account repository holds no
  account. When it succeeds it returns the key pair it was given, the repository then holds
  one account, that key pair with the permissions \<open>change_account_permissions\<close>,
  \<open>register_account\<close>, \<open>create_entity\<close> and nothing else changed, and a second call
  fails.
\<close>

theorem createAdminAccount_genesis:
  "((\<exists>r. fst (createAdminAccount account w) = Inr r) \<longleftrightarrow> count_accounts w = 0)
   \<and> (count_accounts w \<noteq> 0 \<longrightarrow> createAdminAccount account w = (Inl PlainError, w))
   \<and> (count_accounts w = 0 \<longrightarrow>
        (\<exists>stored. fst (createAdminAccount account w) = Inr account
           \<and> accountStore (snd (createAdminAccount account w)) = [stored]
           \<and> get_field stored ''permissions'' =
               JArr [JStr ''change_account_permissions'', JStr ''register_account'',
                     JStr ''create_entity'']
           \<and> (\<forall>k. k \<noteq> ''permissions'' \<longrightarrow> get_field stored k = get_field (JObj (spread account)) k)
           \<and> fst (createAdminAccount account' (snd (createAdminAccount account w)))
               = Inl PlainError))"
  by (auto simp: createAdminAccount_def count_accounts_def store_account_def Let_def
      defaultAdminPermissions_def update_conv')

theorem createAdminAccount_genesis_witness:
  "fst (createAdminAccount adminAccount emptyWorld) = Inr adminAccount
   \<and> get_field (hd (accountStore genesisWorld)) ''permissions'' =
       JArr [JStr ''change_account_permissions'', JStr ''register_account'',
             JStr ''create_entity'']
   \<and> fst (createAdminAccount adminAccount genesisWorld) = Inl PlainError"
  using createAdminAccount_genesis [of adminAccount emptyWorld adminAccount]
  by (auto simp: count_accounts_def emptyWorld_def genesisWorld_def)



text \<open>
  C10. \<open>modifyAccount\<close> calls the repository's update only after the permission check,
  the validation of the request and the lookup of the target account have succeeded. A
  failure of the first is a \<^verbatim>\<open>PermissionError\<close>, of the second a
  \<^verbatim>\<open>ValidationError\<close>, of the third a \<^verbatim>\<open>NotFoundError\<close>; on every error the
  repositories are unchanged, and on success the update is the one call made.
\<close>

theorem modifyAccount_checks_before_update:
  "(\<forall>e. fst (modifyAccount accountToChange accountRequest tokenData w) = Inl e
      \<longrightarrow> snd (modifyAccount accountToChange accountRequest tokenData w) = w)
   \<and> (\<forall>createdBy. read_prop tokenData ''createdBy'' = Inr createdBy \<longrightarrow>
        modifyAccount accountToChange accountRequest tokenData w =
          (if ensureHasPermission w createdBy (JStr ''register_account'') \<noteq> Inr ()
             then (Inl PermissionError, w)
           else if \<not> validateModifyAccountRequest accountRequest
             then (Inl ValidationError, w)
           else if get_account w accountToChange = None
             then (Inl NotFoundError, w)
           else (Inr (fst (update_account accountToChange accountRequest w)),
                 snd (update_account accountToChange accountRequest w))))
   \<and> (\<forall>r w'. modifyAccount accountToChange accountRequest tokenData w = (Inr r, w')
      \<longrightarrow> journal w' = journal w @ [UpdateAccount accountToChange accountRequest])"
proof (intro conjI allI impI)
  fix createdBy
  assume c: "read_prop tokenData ''createdBy'' = Inr createdBy"
  show "modifyAccount accountToChange accountRequest tokenData w =
          (if ensureHasPermission w createdBy (JStr ''register_account'') \<noteq> Inr ()
             then (Inl PermissionError, w)
           else if \<not> validateModifyAccountRequest accountRequest
             then (Inl ValidationError, w)
           else if get_account w accountToChange = None
             then (Inl NotFoundError, w)
           else (Inr (fst (update_account accountToChange accountRequest w)),
                 snd (update_account accountToChange accountRequest w)))"
    using c
    by (auto simp: modifyAccount_def getAccount_def ensureHasPermission_def
        split: option.splits sum.splits prod.splits)
next
  fix e
  assume "fst (modifyAccount accountToChange accountRequest tokenData w) = Inl e"
  then show "snd (modifyAccount accountToChange accountRequest tokenData w) = w"
    by (auto simp: modifyAccount_def split: option.splits sum.splits prod.splits if_splits)
next
  fix r w'
  assume "modifyAccount accountToChange accountRequest tokenData w = (Inr r, w')"
  then show "journal w' = journal w @ [UpdateAccount accountToChange accountRequest]"
    by (auto simp: modifyAccount_def update_account_def Let_def
        split: option.splits sum.splits prod.splits if_splits)
qed

theorem modifyAccount_checks_before_update_witness:
  "modifyAccount (JStr ''0xUSER'') (JObj [(''accessLevel'', JNum 2)]) strangerToken registeredWorld
     = (Inl PermissionError, registeredWorld)
   \<and> modifyAccount (JStr ''0xUSER'') (JObj [(''accessLevel'', JNum (- 5))]) adminToken registeredWorld
     = (Inl ValidationError, registeredWorld)
   \<and> modifyAccount (JStr ''0xGHOST'') (JObj [(''accessLevel'', JNum 2)]) adminToken registeredWorld
     = (Inl NotFoundError, registeredWorld)
   \<and> journal (snd (modifyAccount (JStr ''0xUSER'') (JObj [(''accessLevel'', JNum 2)]) adminToken
         registeredWorld))
     = journal registeredWorld @ [UpdateAccount (JStr ''0xUSER'') (JObj [(''accessLevel'', JNum 2)])]"
proof -
  let ?admin = "JObj [(''address'', JStr ''0xADMIN''), (''secret'', JStr ''0xSECRET''),
                      (''permissions'', defaultAdminPermissions)]"
  have stranger: "read_prop strangerToken ''createdBy'' = Inr (JStr ''0xNOBODY'')"
    by (simp add: strangerToken_def)
  have admin: "read_prop adminToken ''createdBy'' = Inr (JStr ''0xADMIN'')"
    by (simp add: adminToken_def)
  have yes: "hasPermission ?admin (JStr ''register_account'')"
    by (simp add: hasPermission_def defaultAdminPermissions_def)
  have refused: "ensureHasPermission registeredWorld (JStr ''0xNOBODY'') (JStr ''register_account'')
      \<noteq> Inr ()"
    by (simp add: ensureHasPermission_def get_account_def registeredWorld_simp genesisWorld_simp)
  have permitted: "ensureHasPermission registeredWorld (JStr ''0xADMIN'') (JStr ''register_account'')
      = Inr ()"
    using yes
    by (simp add: ensureHasPermission_def get_account_def registeredWorld_simp genesisWorld_simp)
  have bad: "\<not> validateModifyAccountRequest (JObj [(''accessLevel'', JNum (- 5))])"
    by (simp add: validateModifyAccountRequest_def fieldsConstrainedToSet_def)
  have good: "validateModifyAccountRequest (JObj [(''accessLevel'', JNum 2)])"
    by (simp add: validateModifyAccountRequest_def fieldsConstrainedToSet_def)
  have ghost: "get_account registeredWorld (JStr ''0xGHOST'') = None"
    by (simp add: get_account_def registeredWorld_simp genesisWorld_simp)
  have user: "get_account registeredWorld (JStr ''0xUSER'') \<noteq> None"
    by (simp add: get_account_def registeredWorld_simp genesisWorld_simp)
  note spec = modifyAccount_checks_before_update
  have c1: "modifyAccount (JStr ''0xUSER'') (JObj [(''accessLevel'', JNum 2)]) strangerToken
      registeredWorld = (Inl PermissionError, registeredWorld)"
    using spec [of "JStr ''0xUSER''" "JObj [(''accessLevel'', JNum 2)]" strangerToken registeredWorld,
        THEN conjunct2, THEN conjunct1, rule_format, OF stranger] refused
    by simp
  have c2: "modifyAccount (JStr ''0xUSER'') (JObj [(''accessLevel'', JNum (- 5))]) adminToken
      registeredWorld = (Inl ValidationError, registeredWorld)"
    using spec [of "JStr ''0xUSER''" "JObj [(''accessLevel'', JNum (- 5))]" adminToken registeredWorld,
        THEN conjunct2, THEN conjunct1, rule_format, OF admin] permitted bad
    by simp
  have c3: "modifyAccount (JStr ''0xGHOST'') (JObj [(''accessLevel'', JNum 2)]) adminToken
      registeredWorld = (Inl NotFoundError, registeredWorld)"
    using spec [of "JStr ''0xGHOST''" "JObj [(''accessLevel'', JNum 2)]" adminToken registeredWorld,
        THEN conjunct2, THEN conjunct1, rule_format, OF admin] permitted good ghost
    by simp
  have run: "modifyAccount (JStr ''0xUSER'') (JObj [(''accessLevel'', JNum 2)]) adminToken
      registeredWorld =
        (Inr (fst (update_account (JStr ''0xUSER'') (JObj [(''accessLevel'', JNum 2)]) registeredWorld)),
         snd (update_account (JStr ''0xUSER'') (JObj [(''accessLevel'', JNum 2)]) registeredWorld))"
    using spec [of "JStr ''0xUSER''" "JObj [(''accessLevel'', JNum 2)]" adminToken registeredWorld,
        THEN conjunct2, THEN conjunct1, rule_format, OF admin] permitted good user
    by simp
  have c4: "journal (snd (modifyAccount (JStr ''0xUSER'') (JObj [(''accessLevel'', JNum 2)])
         adminToken registeredWorld))
     = journal registeredWorld @ [UpdateAccount (JStr ''0xUSER'') (JObj [(''accessLevel'', JNum 2)])]"
    using spec [of "JStr ''0xUSER''" "JObj [(''accessLevel'', JNum 2)]" adminToken registeredWorld,
        THEN conjunct2, THEN conjunct2, rule_format, OF run]
    by (simp only: run snd_conv)
  from c1 c2 c3 c4 show ?thesis by blast
qed

section \<open>Entities and bundles\<close>

text \<open>
  C5. For an event that passes \<open>validateEvent\<close>, has its \<open>content.idData\<close>, and whose
  creator holds \<open>create_entity\<close>, \<open>createEvent\<close> fails with
  \<^verbatim>\<open>InvalidParametersError\<close> exactly when the repository has no asset with the
  event's \<open>assetId\<close>, and then changes nothing; when the asset exists it stamps the event's
  bundle reference as unset (\<^verbatim>\<open>null\<close>), stores the stamped event and returns it.
\<close>

theorem createEvent_requires_asset:
  assumes valid: "validateEvent eb event"
    and creator: "read_path event [''content'', ''idData'', ''createdBy''] = Inr creatorAddress"
    and permitted: "ensureHasPermission w creatorAddress (JStr ''create_entity'') = Inr ()"
  shows "(fst (createEvent eb event w) = Inl InvalidParametersError
            \<longleftrightarrow> getAsset w (get_path event [''content'', ''idData'', ''assetId'']) = None)
    \<and> createEvent eb event w =
        (if getAsset w (get_path event [''content'', ''idData'', ''assetId'']) = None
         then (Inl InvalidParametersError, w)
         else (Inr (setBundle eb event JNull),
               w\<lparr>eventStore := eventStore w @ [setBundle eb event JNull],
                 journal := journal w @ [StoreEvent (setBundle eb event JNull)]\<rparr>))"
  using valid creator permitted
  by (simp add: createEvent_def storeEvent_def Let_def)

theorem createEvent_requires_asset_witness:
  "createEvent mockEntityBuilder (exampleEvent ''0xE1'' ''0xA1'' 0) genesisWorld
     = (Inl InvalidParametersError, genesisWorld)
   \<and> fst (createEvent mockEntityBuilder (exampleEvent ''0xE1'' ''0xA1'' 0)
            (snd (createAsset mockEntityBuilder (exampleAsset ''0xA1'') genesisWorld)))
     = Inr (setBundle mockEntityBuilder (exampleEvent ''0xE1'' ''0xA1'' 0) JNull)"
proof -
  let ?event = "exampleEvent ''0xE1'' ''0xA1'' 0"
  let ?admin = "JObj [(''address'', JStr ''0xADMIN''), (''secret'', JStr ''0xSECRET''),
                      (''permissions'', defaultAdminPermissions)]"
  let ?asset = "JObj [(''assetId'', JStr ''0xA1''),
           (''content'', JObj [(''idData'', JObj [(''createdBy'', JStr ''0xADMIN''),
                                                (''timestamp'', JNum 1)]),
                              (''signature'', JStr ''0xSIG'')]),
           (''metadata'', JObj [(''bundleId'', JNull)])]"
  let ?w1 = "genesisWorld\<lparr>assetStore := [?asset], journal := journal genesisWorld @ [StoreAsset ?asset]\<rparr>"
  have valid: "validateEvent mockEntityBuilder ?event"
    by (simp add: mockEntityBuilder_def)
  have creator: "read_path ?event [''content'', ''idData'', ''createdBy''] = Inr (JStr ''0xADMIN'')"
    by (simp add: exampleEvent_def)
  have assetId: "get_field (get_field (get_field ?event ''content'') ''idData'') ''assetId''
      = JStr ''0xA1''"
    by (simp add: exampleEvent_def)
  have yes: "hasPermission ?admin (JStr ''create_entity'')"
    by (simp add: hasPermission_def defaultAdminPermissions_def)
  have permitted0: "ensureHasPermission genesisWorld (JStr ''0xADMIN'') (JStr ''create_entity'') = Inr ()"
    using yes by (simp add: ensureHasPermission_def get_account_def genesisWorld_simp)
  have w1: "snd (createAsset mockEntityBuilder (exampleAsset ''0xA1'') genesisWorld) = ?w1"
    using permitted0
    by (simp add: createAsset_def mockEntityBuilder_def exampleAsset_def storeAsset_def Let_def
        genesisWorld_simp)
  have permitted1: "ensureHasPermission ?w1 (JStr ''0xADMIN'') (JStr ''create_entity'') = Inr ()"
    using yes by (simp add: ensureHasPermission_def get_account_def genesisWorld_simp)
  have missing: "getAsset genesisWorld (JStr ''0xA1'') = None"
    by (simp add: getAsset_def genesisWorld_simp)
  have present: "getAsset ?w1 (JStr ''0xA1'') \<noteq> None"
    by (simp add: getAsset_def)
  have "createEvent mockEntityBuilder ?event genesisWorld = (Inl InvalidParametersError, genesisWorld)"
    using createEvent_requires_asset [OF valid creator permitted0, THEN conjunct2] missing
    by (simp add: assetId)
  moreover
  have "fst (createEvent mockEntityBuilder ?event ?w1)
      = Inr (setBundle mockEntityBuilder ?event JNull)"
    using createEvent_requires_asset [OF valid creator permitted1, THEN conjunct2] present
    by (simp add: assetId)
  ultimately show ?thesis by (simp only: w1)
qed

lemma scenario_claimed:
  "fst (beginBundle (JStr ''stub-1'') scenarioWorld) =
     ([setBundle mockEntityBuilder (exampleAsset ''0xA1'') (JStr ''stub-1''),
       setBundle mockEntityBuilder (exampleAsset ''0xA2'') (JStr ''stub-1'')],
      [setBundle mockEntityBuilder (exampleEvent ''0xE1'' ''0xA1'' 0) (JStr ''stub-1''),
       setBundle mockEntityBuilder (exampleEvent ''0xE2'' ''0xA2'' 0) (JStr ''stub-1''),
       setBundle mockEntityBuilder (exampleEvent ''0xE3'' ''0xA2'' 1) (JStr ''stub-1'')])"
  by (simp add: beginBundle_def scenarioWorld_def Let_def stamp_def bundleRef_def
      mockEntityBuilder_def exampleAsset_def exampleEvent_def)

lemma bundleRef_stamp:
  "bundleRef (stamp old new entry) = (if bundleRef entry = old then new else bundleRef entry)"
  by (simp add: bundleRef_def stamp_def get_field_put_field_same)

lemma bundleRef_claim_resolved:
  "bundleRef (stamp stub bundleId (stamp JNull stub entry)) =
     (if bundleRef entry = JNull \<or> bundleRef entry = stub then bundleId else bundleRef entry)"
  by (simp add: bundleRef_stamp)

lemma scenario_refs:
  "map bundleRef (assetStore scenarioWorld) = [JNull, JNull]"
  "map bundleRef (eventStore scenarioWorld) = [JNull, JNull, JNull]"
  "bundleStore scenarioWorld = []"
  by (simp_all add: scenarioWorld_def bundleRef_def mockEntityBuilder_def genesisWorld_simp
      exampleAsset_def exampleEvent_def)

text \<open>
  C8. \<open>finaliseBundle\<close> makes its calls in this order: it claims the unbundled assets
  and events under the stub id, assembles the bundle from the claimed entries with the
  node's own key and the current time, stores the bundle, resolves the claim by linking the
  stub id to the new bundle id, submits the bundle id to the ledger, records the block
  number it gets, and returns the assembled bundle. The state it leaves is fixed on every
  path: the new bundle is stored last in the bundle collection, every asset and event that
  was unbundled or carried the stub id refers to the new bundle id, the accounts are
  untouched, and when the ledger answers with a block number that number is recorded with
  the stored bundle. When the ledger fails, the bundle is already stored and the claim
  already resolved, and no block number is recorded.
\<close>

theorem finaliseBundle_steps:
  fixes im eb pr now bundleStubId w
  defines "claimed \<equiv> fst (beginBundle bundleStubId w)"
  defines "newBundle \<equiv> assembleBundle im eb (fst claimed) (snd claimed) now (nodePrivateKey im)"
  defines "bundleId \<equiv> get_field newBundle ''bundleId''"
  defines "run \<equiv> finaliseBundle im eb pr now bundleStubId w"
  defines "stored \<equiv>
     w\<lparr>assetStore := map (stamp bundleStubId bundleId) (map (stamp JNull bundleStubId) (assetStore w)),
       eventStore := map (stamp bundleStubId bundleId) (map (stamp JNull bundleStubId) (eventStore w)),
       bundleStore := bundleStore w @ [newBundle],
       journal := journal w @ [BeginBundle bundleStubId, StoreBundle newBundle,
                              EndBundle bundleStubId bundleId, UploadProof bundleId]\<rparr>"
  shows "journal (snd run) =
           journal w @ [BeginBundle bundleStubId, StoreBundle newBundle,
                        EndBundle bundleStubId bundleId, UploadProof bundleId]
             @ (case uploadProof pr bundleId of
                  Inl e \<Rightarrow> []
                | Inr receipt \<Rightarrow>
                    (case read_prop receipt ''blockNumber'' of
                       Inl e \<Rightarrow> []
                     | Inr blockNumber \<Rightarrow> [StoreBundleProofBlock bundleId blockNumber]))
    \<and> fst run =
        (case uploadProof pr bundleId of
           Inl e \<Rightarrow> Inl e
         | Inr receipt \<Rightarrow>
             (case read_prop receipt ''blockNumber'' of
                Inl e \<Rightarrow> Inl e
              | Inr blockNumber \<Rightarrow> Inr newBundle))
    \<and> (\<forall>e. uploadProof pr bundleId = Inl e \<longrightarrow>
          bundleStore (snd run) = bundleStore w @ [newBundle]
          \<and> assetStore (snd run) =
              map (stamp bundleStubId bundleId) (map (stamp JNull bundleStubId) (assetStore w))
          \<and> eventStore (snd run) =
              map (stamp bundleStubId bundleId) (map (stamp JNull bundleStubId) (eventStore w)))
    \<and> claimed =
        (filter (\<lambda>e. bundleRef e = bundleStubId) (map (stamp JNull bundleStubId) (assetStore w)),
         filter (\<lambda>e. bundleRef e = bundleStubId) (map (stamp JNull bundleStubId) (eventStore w)))
    \<and> bundleId = calculateHash im (get_field newBundle ''content'')
    \<and> snd run =
        (case uploadProof pr bundleId of
           Inl e \<Rightarrow> stored
         | Inr receipt \<Rightarrow>
             (case read_prop receipt ''blockNumber'' of
                Inl e \<Rightarrow> stored
              | Inr blockNumber \<Rightarrow>
                  stored\<lparr>bundleStore :=
                           map (\<lambda>b. if get_field b ''bundleId'' = bundleId
                                    then put_path b [''metadata'', ''proofBlock''] blockNumber
                                    else b)
                             (bundleStore w @ [newBundle]),
                         journal := journal stored @ [StoreBundleProofBlock bundleId blockNumber]\<rparr>))
    \<and> (\<forall>receipt blockNumber.
          uploadProof pr bundleId = Inr receipt \<and> read_prop receipt ''blockNumber'' = Inr blockNumber
          \<longrightarrow> fst run = Inr newBundle
              \<and> put_path newBundle [''metadata'', ''proofBlock''] blockNumber
                    \<in> set (bundleStore (snd run))
              \<and> length (bundleStore (snd run)) = length (bundleStore w) + 1)
    \<and> map bundleRef (assetStore (snd run)) =
        map (\<lambda>e. if bundleRef e = JNull \<or> bundleRef e = bundleStubId then bundleId
                  else bundleRef e) (assetStore w)
    \<and> map bundleRef (eventStore (snd run)) =
        map (\<lambda>e. if bundleRef e = JNull \<or> bundleRef e = bundleStubId then bundleId
                  else bundleRef e) (eventStore w)
    \<and> accountStore (snd run) = accountStore w"
proof -
  have run_eq: "run =
        (case uploadProof pr bundleId of
           Inl e \<Rightarrow> (Inl e, stored)
         | Inr receipt \<Rightarrow>
             (case read_prop receipt ''blockNumber'' of
                Inl e \<Rightarrow> (Inl e, stored)
              | Inr blockNumber \<Rightarrow>
                  (Inr newBundle,
                   stored\<lparr>bundleStore :=
                           map (\<lambda>b. if get_field b ''bundleId'' = bundleId
                                    then put_path b [''metadata'', ''proofBlock''] blockNumber
                                    else b)
                             (bundleStore w @ [newBundle]),
                         journal := journal stored @ [StoreBundleProofBlock bundleId blockNumber]\<rparr>)))"
    unfolding run_def stored_def bundleId_def newBundle_def claimed_def
    by (simp add: finaliseBundle_def beginBundle_def storeBundle_def endBundle_def
        storeBundleProofBlock_def Let_def split: sum.splits prod.splits)
  have claimed_eq: "claimed =
        (filter (\<lambda>e. bundleRef e = bundleStubId) (map (stamp JNull bundleStubId) (assetStore w)),
         filter (\<lambda>e. bundleRef e = bundleStubId) (map (stamp JNull bundleStubId) (eventStore w)))"
    unfolding claimed_def by (simp add: beginBundle_def Let_def)
  have id_eq: "bundleId = calculateHash im (get_field newBundle ''content'')"
    unfolding bundleId_def newBundle_def by (simp add: assembleBundle_def Let_def)
  have refs: "map bundleRef (map (stamp bundleStubId bundleId) (map (stamp JNull bundleStubId) xs)) =
        map (\<lambda>e. if bundleRef e = JNull \<or> bundleRef e = bundleStubId then bundleId
                  else bundleRef e) xs" for xs
    by (simp add: bundleRef_claim_resolved comp_def)
  have stores: "assetStore (snd run) =
        map (stamp bundleStubId bundleId) (map (stamp JNull bundleStubId) (assetStore w))"
      "eventStore (snd run) =
        map (stamp bundleStubId bundleId) (map (stamp JNull bundleStubId) (eventStore w))"
      "accountStore (snd run) = accountStore w"
    unfolding run_eq by (simp_all add: stored_def split: sum.splits)
  show ?thesis
  proof (intro conjI allI impI)
    show "claimed =
        (filter (\<lambda>e. bundleRef e = bundleStubId) (map (stamp JNull bundleStubId) (assetStore w)),
         filter (\<lambda>e. bundleRef e = bundleStubId) (map (stamp JNull bundleStubId) (eventStore w)))"
      by (rule claimed_eq)
    show "bundleId = calculateHash im (get_field newBundle ''content'')" by (rule id_eq)
    show "map bundleRef (assetStore (snd run)) =
        map (\<lambda>e. if bundleRef e = JNull \<or> bundleRef e = bundleStubId then bundleId
                  else bundleRef e) (assetStore w)"
      by (simp only: stores refs)
    show "map bundleRef (eventStore (snd run)) =
        map (\<lambda>e. if bundleRef e = JNull \<or> bundleRef e = bundleStubId then bundleId
                  else bundleRef e) (eventStore w)"
      by (simp only: stores refs)
    show "accountStore (snd run) = accountStore w" by (rule stores)
  qed (auto simp: run_eq stored_def bundleId_def split: sum.splits)
qed

theorem finaliseBundle_steps_witness:
  "fst (finaliseBundle symbolicIdentityManager mockEntityBuilder mockProofRepository
          1540000000 (JStr ''stub-1'') scenarioWorld)
     = Inr (assembleBundle symbolicIdentityManager mockEntityBuilder
              [setBundle mockEntityBuilder (exampleAsset ''0xA1'') (JStr ''stub-1''),
               setBundle mockEntityBuilder (exampleAsset ''0xA2'') (JStr ''stub-1'')]
              [setBundle mockEntityBuilder (exampleEvent ''0xE1'' ''0xA1'' 0) (JStr ''stub-1''),
               setBundle mockEntityBuilder (exampleEvent ''0xE2'' ''0xA2'' 0) (JStr ''stub-1''),
               setBundle mockEntityBuilder (exampleEvent ''0xE3'' ''0xA2'' 1) (JStr ''stub-1'')]
              1540000000 (JStr ''nodeSecret''))
   \<and> (\<exists>newBundle bundleId entries.
        fst (finaliseBundle symbolicIdentityManager mockEntityBuilder mockProofRepository
               1540000000 (JStr ''stub-1'') scenarioWorld) = Inr newBundle
        \<and> get_field newBundle ''bundleId'' = bundleId
        \<and> get_path newBundle [''content'', ''entries''] = JArr entries
        \<and> length entries = 5
        \<and> bundleStore (snd (finaliseBundle symbolicIdentityManager mockEntityBuilder
               mockProofRepository 1540000000 (JStr ''stub-1'') scenarioWorld))
            = [put_path newBundle [''metadata'', ''proofBlock''] (JNum 7)]
        \<and> map bundleRef (assetStore (snd (finaliseBundle symbolicIdentityManager mockEntityBuilder
               mockProofRepository 1540000000 (JStr ''stub-1'') scenarioWorld)))
            = [bundleId, bundleId]
        \<and> map bundleRef (eventStore (snd (finaliseBundle symbolicIdentityManager mockEntityBuilder
               mockProofRepository 1540000000 (JStr ''stub-1'') scenarioWorld)))
            = [bundleId, bundleId, bundleId]
        \<and> journal (snd (finaliseBundle symbolicIdentityManager mockEntityBuilder
               mockProofRepository 1540000000 (JStr ''stub-1'') scenarioWorld))
            = journal scenarioWorld @
                [BeginBundle (JStr ''stub-1''), StoreBundle newBundle,
                 EndBundle (JStr ''stub-1'') bundleId, UploadProof bundleId,
                 StoreBundleProofBlock bundleId (JNum 7)])"
proof -
  let ?run = "finaliseBundle symbolicIdentityManager mockEntityBuilder mockProofRepository
          1540000000 (JStr ''stub-1'') scenarioWorld"
  let ?nb = "assembleBundle symbolicIdentityManager mockEntityBuilder
              [setBundle mockEntityBuilder (exampleAsset ''0xA1'') (JStr ''stub-1''),
               setBundle mockEntityBuilder (exampleAsset ''0xA2'') (JStr ''stub-1'')]
              [setBundle mockEntityBuilder (exampleEvent ''0xE1'' ''0xA1'' 0) (JStr ''stub-1''),
               setBundle mockEntityBuilder (exampleEvent ''0xE2'' ''0xA2'' 0) (JStr ''stub-1''),
               setBundle mockEntityBuilder (exampleEvent ''0xE3'' ''0xA2'' 1) (JStr ''stub-1'')]
              1540000000 (JStr ''nodeSecret'')"
  have key: "nodePrivateKey symbolicIdentityManager = JStr ''nodeSecret''"
    by (simp add: symbolicIdentityManager_def)
  have receipt: "uploadProof mockProofRepository x = Inr (JObj [(''blockNumber'', JNum 7)])" for x
    by (simp add: mockProofRepository_def)
  note spec = finaliseBundle_steps [of symbolicIdentityManager mockEntityBuilder
      mockProofRepository 1540000000 "JStr ''stub-1''" scenarioWorld,
      unfolded scenario_claimed key receipt fst_conv snd_conv]
  have r: "fst ?run = Inr ?nb"
    using spec [THEN conjunct2, THEN conjunct1] by simp
  have j: "journal (snd ?run) = journal scenarioWorld @
                [BeginBundle (JStr ''stub-1''), StoreBundle ?nb,
                 EndBundle (JStr ''stub-1'') (get_field ?nb ''bundleId''),
                 UploadProof (get_field ?nb ''bundleId''),
                 StoreBundleProofBlock (get_field ?nb ''bundleId'') (JNum 7)]"
    using spec [THEN conjunct1] by simp
  have b: "bundleStore (snd ?run) = [put_path ?nb [''metadata'', ''proofBlock''] (JNum 7)]"
    using spec [THEN conjunct2, THEN conjunct2, THEN conjunct2, THEN conjunct2, THEN conjunct2,
        THEN conjunct1]
    by (simp add: scenario_refs)
  have refs: "map (\<lambda>e. if bundleRef e = JNull \<or> bundleRef e = s then c else bundleRef e) xs
      = map (\<lambda>r. if r = JNull \<or> r = s then c else r) (map bundleRef xs)" for s c xs
    by (simp add: comp_def)
  have a: "map bundleRef (assetStore (snd ?run))
      = [get_field ?nb ''bundleId'', get_field ?nb ''bundleId'']"
    using spec [THEN conjunct2, THEN conjunct2, THEN conjunct2, THEN conjunct2, THEN conjunct2, THEN conjunct2, THEN conjunct2, THEN conjunct1] by (simp add: refs scenario_refs)
  have e: "map bundleRef (eventStore (snd ?run))
      = [get_field ?nb ''bundleId'', get_field ?nb ''bundleId'', get_field ?nb ''bundleId'']"
    using spec [THEN conjunct2, THEN conjunct2, THEN conjunct2, THEN conjunct2, THEN conjunct2, THEN conjunct2, THEN conjunct2, THEN conjunct2, THEN conjunct1] by (simp add: refs scenario_refs)
  have n: "\<exists>entries. get_path ?nb [''content'', ''entries''] = JArr entries \<and> length entries = 5"
    by (simp add: assembleBundle_def Let_def)
  from n obtain entries
    where en: "get_path ?nb [''content'', ''entries''] = JArr entries" "length entries = 5"
    by blast
  from r j b a e en show ?thesis
    by (intro conjI exI [of _ entries, THEN exI [of _ "get_field ?nb ''bundleId''"],
          THEN exI [of _ ?nb]]) (rule refl | assumption)+
qed

end
